theory Spec2Isabelle
  imports Main
begin

section \<open>The string functions of the Go library that the fallback handler calls\<close>

text \<open>
  Go strings are byte sequences; a \<^typ>\<open>string\<close> is a list of bytes. The handler calls
  \<^verbatim>\<open>strings.HasPrefix\<close>, \<^verbatim>\<open>strings.TrimPrefix\<close>, \<^verbatim>\<open>strings.Count\<close> and
  \<^verbatim>\<open>strings.Repeat\<close>.
\<close>

definition HasPrefix :: "string \<Rightarrow> string \<Rightarrow> bool" where
  \<comment> \<open>\<^verbatim>\<open>len(s) >= len(prefix) && s[:len(prefix)] == prefix\<close>\<close>
  "HasPrefix s pre = (length pre \<le> length s \<and> take (length pre) s = pre)"

definition TrimPrefix :: "string \<Rightarrow> string \<Rightarrow> string" where
  \<comment> \<open>\<^verbatim>\<open>if HasPrefix(s, prefix) { return s[len(prefix):] }; return s\<close>\<close>
  "TrimPrefix s pre = (if HasPrefix s pre then drop (length pre) s else s)"

fun Repeat :: "string \<Rightarrow> nat \<Rightarrow> string" where
  \<comment> \<open>\<^verbatim>\<open>strings.Repeat\<close> panics on a negative count; the handler passes the result of
      \<^verbatim>\<open>strings.Count\<close>, which is never negative, so the count is a \<^typ>\<open>nat\<close>.\<close>
  "Repeat s 0 = []"
| "Repeat s (Suc n) = s @ Repeat s n"

fun Index :: "string \<Rightarrow> string \<Rightarrow> nat option" where
  \<comment> \<open>The position of the first occurrence of \<open>substr\<close> in \<open>s\<close>; Go's \<open>-1\<close> is \<open>None\<close>.\<close>
  "Index [] substr = (if substr = [] then Some 0 else None)"
| "Index (c # cs) substr =
     (if HasPrefix (c # cs) substr then Some 0 else map_option Suc (Index cs substr))"

lemma Index_bound: "Index s substr = Some i \<Longrightarrow> i + length substr \<le> length s"
proof (induction s arbitrary: i)
  case Nil
  then show ?case by (simp split: if_splits)
next
  case (Cons c cs)
  show ?case
  proof (cases "HasPrefix (c # cs) substr")
    case True
    with Cons.prems show ?thesis by (simp add: HasPrefix_def)
  next
    case False
    with Cons.prems obtain j where "Index cs substr = Some j" "i = Suc j" by auto
    with Cons.IH show ?thesis by fastforce
  qed
qed

function count_loop :: "string \<Rightarrow> string \<Rightarrow> nat \<Rightarrow> nat" where
  \<comment> \<open>The loop of \<^verbatim>\<open>strings.Count\<close>:
      \<^verbatim>\<open>for { i := Index(s, substr); if i == -1 { return n }; n++; s = s[i+len(substr):] }\<close>.
      Count enters it with a separator of two bytes or more; on the empty separator the
      loop would not advance, and the model returns there.\<close>
  "count_loop s substr n =
     (if substr = [] then n
      else case Index s substr of
             None \<Rightarrow> n
           | Some i \<Rightarrow> count_loop (drop (i + length substr) s) substr (Suc n))"
  by pat_completeness auto
termination
proof (relation "measure (\<lambda>(s, substr, n). length s)")
  show "wf (measure (\<lambda>(s, substr, n). length s))" by simp
next
  fix s substr :: string and n i :: nat
  assume ne: "substr \<noteq> []" and ix: "Index s substr = Some i"
  from Index_bound [OF ix] ne have "0 < length s" by (cases s) auto
  with ne show "((drop (i + length substr) s, substr, Suc n), (s, substr, n))
      \<in> measure (\<lambda>(s, substr, n). length s)"
    by (cases substr) auto
qed

declare count_loop.simps [simp del]

definition Count :: "string \<Rightarrow> string \<Rightarrow> nat" where
  \<comment> \<open>\<^verbatim>\<open>strings.Count\<close>: the number of non-overlapping occurrences of \<open>substr\<close>. A
      one-byte separator is counted byte by byte (\<^verbatim>\<open>bytealg.CountString\<close>). On the empty
      separator Go returns the number of runes plus one; the handler never passes it,
      and the model counts bytes there, which is the rune count on ASCII text only.\<close>
  "Count s substr =
     (if substr = [] then length s + 1
      else if length substr = 1 then length (filter (\<lambda>c. c = hd substr) s)
      else count_loop s substr 0)"


section \<open>The request context and the fallback handler\<close>

text \<open>
  What the fallback reads of a gin context and what it writes: the request's method and
  raw request URI (\<^verbatim>\<open>c.Request.RequestURI\<close>: the request target as the client sent it,
  query string included), the response status, the response headers, and the events
  written to the log.
\<close>

record log_event =
  level :: string
  method_field :: string  \<comment> \<open>\<^verbatim>\<open>Str("method", ...)\<close>\<close>
  code_field :: int  \<comment> \<open>\<^verbatim>\<open>Int("code", ...)\<close>\<close>
  took_field :: int  \<comment> \<open>\<^verbatim>\<open>Int("took", ...)\<close>\<close>
  message :: string  \<comment> \<open>\<^verbatim>\<open>Msg(...)\<close>\<close>

record gin_context =
  Method :: string
  RequestURI :: string
  status :: nat
  header :: "string \<rightharpoonup> string"
  logged :: "log_event list"

definition StatusFound :: nat where
  "StatusFound = 302"

definition StatusNotFound :: nat where
  "StatusNotFound = 404"

definition NoRoute_handler :: "gin_context \<Rightarrow> gin_context" where
  \<comment> \<open>The function given to \<^verbatim>\<open>r.NoRoute\<close>: it logs, then redirects if the request URI
      starts with \<^verbatim>\<open>/ui/\<close>. \<^verbatim>\<open>c.Status\<close> stores the status; \<^verbatim>\<open>Header().Set\<close> stores the
      header.\<close>
  "NoRoute_handler c =
     (let c1 = c\<lparr>logged := logged c @
                 [\<lparr>level = ''error'', method_field = Method c, code_field = 404,
                   took_field = 0, message = RequestURI c\<rparr>]\<rparr>
      in if HasPrefix (RequestURI c1) ''/ui/'' then
           (let path = TrimPrefix (RequestURI c1) ''/ui/'';
                locationPath = Repeat ''../'' (Count path ''/'');
                c2 = c1\<lparr>status := StatusFound\<rparr>
            in c2\<lparr>header := (header c2)(''Location'' \<mapsto> ''./'' @ locationPath)\<rparr>)
         else c1)"

text \<open>
  The path of a request, as against its raw URI. Go's server parses the request target
  (\<^verbatim>\<open>url.ParseRequestURI\<close>): it cuts the target at the first \<^verbatim>\<open>?\<close>, what follows being
  the query, and decodes the percent escapes of what precedes (\<^verbatim>\<open>unescape\<close>), which
  gives \<^verbatim>\<open>URL.Path\<close>. A \<^verbatim>\<open>%\<close> that two hexadecimal digits do not follow is an error:
  the server answers 400 and no handler runs. The nesting depth of a path under
  \<^verbatim>\<open>/ui/\<close> is its number of non-empty segments behind the prefix: 3 for \<^verbatim>\<open>/ui/a/b/c\<close>.
\<close>

fun unhex :: "char \<Rightarrow> (bool \<times> bool \<times> bool \<times> bool) option" where
  \<comment> \<open>The value of a hexadecimal digit, lowest bit first; \<open>None\<close> where \<^verbatim>\<open>ishex\<close> is
      false.\<close>
  "unhex c =
     (if c = CHR ''0'' then Some (False, False, False, False)
      else if c = CHR ''1'' then Some (True, False, False, False)
      else if c = CHR ''2'' then Some (False, True, False, False)
      else if c = CHR ''3'' then Some (True, True, False, False)
      else if c = CHR ''4'' then Some (False, False, True, False)
      else if c = CHR ''5'' then Some (True, False, True, False)
      else if c = CHR ''6'' then Some (False, True, True, False)
      else if c = CHR ''7'' then Some (True, True, True, False)
      else if c = CHR ''8'' then Some (False, False, False, True)
      else if c = CHR ''9'' then Some (True, False, False, True)
      else if c = CHR ''a'' \<or> c = CHR ''A'' then Some (False, True, False, True)
      else if c = CHR ''b'' \<or> c = CHR ''B'' then Some (True, True, False, True)
      else if c = CHR ''c'' \<or> c = CHR ''C'' then Some (False, False, True, True)
      else if c = CHR ''d'' \<or> c = CHR ''D'' then Some (True, False, True, True)
      else if c = CHR ''e'' \<or> c = CHR ''E'' then Some (False, True, True, True)
      else if c = CHR ''f'' \<or> c = CHR ''F'' then Some (True, True, True, True)
      else None)"

fun unescape :: "string \<Rightarrow> string option" where
  \<comment> \<open>\<^verbatim>\<open>unescape(s, encodePath)\<close>: each \<^verbatim>\<open>%XY\<close> becomes the byte
      \<^verbatim>\<open>unhex(X)<<4 | unhex(Y)\<close>; every other byte stays.\<close>
  "unescape [] = Some []"
| "unescape (c # cs) =
     (if c = CHR ''%'' then
        (case cs of
           hi # lo # rest \<Rightarrow>
             (case (unhex hi, unhex lo) of
                (Some (h0, h1, h2, h3), Some (l0, l1, l2, l3)) \<Rightarrow>
                  map_option (\<lambda>t. Char l0 l1 l2 l3 h0 h1 h2 h3 # t) (unescape rest)
              | _ \<Rightarrow> None)
         | _ \<Rightarrow> None)
      else map_option (\<lambda>t. c # t) (unescape cs))"

definition url_path :: "string \<Rightarrow> string option" where
  "url_path uri = unescape (takeWhile (\<lambda>c. c \<noteq> CHR ''?'') uri)"

fun split_on :: "char \<Rightarrow> string \<Rightarrow> string list" where
  \<comment> \<open>\<^verbatim>\<open>strings.Split\<close> on a one-byte separator: one piece more than separators.\<close>
  "split_on sep [] = [[]]"
| "split_on sep (c # cs) =
     (if c = sep then [] # split_on sep cs
      else (case split_on sep cs of
              [] \<Rightarrow> [[c]]
            | piece # pieces \<Rightarrow> (c # piece) # pieces))"

definition segments :: "string \<Rightarrow> string list" where
  "segments p = split_on CHR ''/'' (TrimPrefix p ''/ui/'')"

definition nesting_depth :: "string \<Rightarrow> nat" where
  "nesting_depth p = length (filter (\<lambda>seg. seg \<noteq> []) (segments p))"


section \<open>The engine and the route table\<close>

text \<open>
  A handler chain is a list of stages. \<^verbatim>\<open>AuthMiddleware\<close> takes the operation identifier;
  \<^verbatim>\<open>ESMiddleware\<close> and \<^verbatim>\<open>IndexAliasMiddleware\<close> take nothing; a terminal handler is
  named as the source names it (\<^verbatim>\<open>index.Create\<close>), a function literal by what it
  renders. \<open>Middleware\<close> is a handler installed for the whole engine with \<^verbatim>\<open>r.Use\<close>.
\<close>

datatype http_method = GET | POST | PUT | DELETE | HEAD

datatype stage =
    Middleware string
  | AuthMiddleware string
  | ESMiddleware
  | IndexAliasMiddleware
  | Handler string

record route =
  httpMethod :: http_method
  path :: string
  handlers :: "stage list"

record engine =
  Handlers :: "stage list"  \<comment> \<open>the engine-wide middleware, in the order of \<^verbatim>\<open>Use\<close>\<close>
  trees :: "route list"  \<comment> \<open>the registered routes, in the order of registration\<close>
  noRoute :: "(gin_context \<Rightarrow> gin_context) list"

definition New :: engine where
  \<comment> \<open>\<^verbatim>\<open>gin.New()\<close>: no middleware, no route.\<close>
  "New = \<lparr>Handlers = [], trees = [], noRoute = []\<rparr>"

definition Use :: "stage list \<Rightarrow> engine \<Rightarrow> engine" where
  "Use middleware r = r\<lparr>Handlers := Handlers r @ middleware\<rparr>"

definition Handle :: "http_method \<Rightarrow> string \<Rightarrow> stage list \<Rightarrow> engine \<Rightarrow> engine" where
  \<comment> \<open>\<^verbatim>\<open>r.GET(path, handlers...)\<close> and its siblings: gin stores the chain made of the
      engine-wide middleware installed so far, followed by the handlers of the call
      (\<^verbatim>\<open>combineHandlers\<close>).\<close>
  "Handle m p hs r =
     r\<lparr>trees := trees r @ [\<lparr>httpMethod = m, path = p, handlers = Handlers r @ hs\<rparr>]\<rparr>"

definition StaticFS :: "string \<Rightarrow> engine \<Rightarrow> engine" where
  \<comment> \<open>\<^verbatim>\<open>r.StaticFS(relativePath, fs)\<close> registers the static file handler for GET and
      for HEAD on \<^verbatim>\<open>path.Join(relativePath, "/*filepath")\<close>; for a relative path with
      no dot segment and no doubled slash the join drops one trailing slash.\<close>
  "StaticFS relativePath r =
     (let dir = (if relativePath \<noteq> [] \<and> last relativePath = CHR ''/''
                 then butlast relativePath else relativePath);
          urlPattern = dir @ ''/*filepath''
      in Handle HEAD urlPattern [Handler ''static'']
           (Handle GET urlPattern [Handler ''static''] r))"

definition NoRoute :: "(gin_context \<Rightarrow> gin_context) \<Rightarrow> engine \<Rightarrow> engine" where
  "NoRoute h r = r\<lparr>noRoute := [h]\<rparr>"

definition HTTPCacheForUI :: "string list \<Rightarrow> engine \<Rightarrow> engine" where
  \<comment> \<open>\<^verbatim>\<open>HTTPCacheForUI\<close> is defined in another file of package \<^verbatim>\<open>routes\<close>. Of its
      body this much is assumed: it installs engine-wide middleware with \<^verbatim>\<open>r.Use\<close>
      and registers nothing. The names of that middleware are a parameter.\<close>
  "HTTPCacheForUI ui_cache r = Use (map Middleware ui_cache) r"

definition SetRoutes :: "string list \<Rightarrow> engine \<Rightarrow> engine" where
  \<comment> \<open>The calls of \<^verbatim>\<open>SetRoutes\<close> on the engine, in the order of the source. (The
      call of \<^verbatim>\<open>GetFrontendAssets\<close> only yields the file system handed to
      \<^verbatim>\<open>StaticFS\<close>.)\<close>
  "SetRoutes ui_cache r = fold (\<lambda>call. call)
      [
       Use [Middleware ''cors''],
       Handle GET ''/'' [Handler ''meta.GUI''],
       Handle GET ''/version'' [Handler ''meta.GetVersion''],
       Handle GET ''/healthz'' [Handler ''meta.GetHealthz''],
       Handle GET ''/swagger'' [Handler ''func(/swagger/index.html)''],
       Handle GET ''/swagger/*any'' [Handler ''ginSwagger.WrapHandler(swaggerFiles.Handler)''],
       HTTPCacheForUI ui_cache,
       StaticFS ''/ui/'',
       NoRoute NoRoute_handler,
       Handle POST ''/api/login'' [Handler ''auth.Login''],
       Handle POST ''/api/user''
         [AuthMiddleware ''auth.CreateUpdateUser'', Handler ''auth.CreateUpdateUser''],
       Handle PUT ''/api/user''
         [AuthMiddleware ''auth.CreateUpdateUser'', Handler ''auth.CreateUpdateUser''],
       Handle DELETE ''/api/user/:id''
         [AuthMiddleware ''auth.DeleteUser'', Handler ''auth.DeleteUser''],
       Handle GET ''/api/user'' [AuthMiddleware ''auth.ListUser'', Handler ''auth.ListUser''],
       Handle GET ''/api/permissions''
         [AuthMiddleware ''auth.ListPermissions'', Handler ''auth.ListPermissions''],
       Handle GET ''/api/role'' [AuthMiddleware ''auth.ListRole'', Handler ''auth.ListRole''],
       Handle POST ''/api/role''
         [AuthMiddleware ''auth.CreateUpdateRole'', Handler ''auth.CreateUpdateRole''],
       Handle PUT ''/api/role''
         [AuthMiddleware ''auth.CreateUpdateRole'', Handler ''auth.CreateUpdateRole''],
       Handle DELETE ''/api/role/:id''
         [AuthMiddleware ''auth.DeleteRole'', Handler ''auth.DeleteRole''],
       Handle GET ''/api/index'' [AuthMiddleware ''index.List'', Handler ''index.List''],
       Handle GET ''/api/index_name''
         [AuthMiddleware ''index.IndexNameList'', Handler ''index.IndexNameList''],
       Handle POST ''/api/index'' [AuthMiddleware ''index.Create'', Handler ''index.Create''],
       Handle PUT ''/api/index'' [AuthMiddleware ''index.Create'', Handler ''index.Create''],
       Handle PUT ''/api/index/:target''
         [AuthMiddleware ''index.Create'', Handler ''index.Create''],
       Handle DELETE ''/api/index/:target''
         [AuthMiddleware ''index.Delete'', Handler ''index.Delete''],
       Handle GET ''/api/index/:target'' [AuthMiddleware ''index.Get'', Handler ''index.Get''],
       Handle HEAD ''/api/index/:target''
         [AuthMiddleware ''index.Exists'', Handler ''index.Exists''],
       Handle POST ''/api/index/:target/refresh''
         [AuthMiddleware ''index.Refresh'', Handler ''index.Refresh''],
       Handle GET ''/api/:target/_mapping''
         [AuthMiddleware ''index.GetMapping'', Handler ''index.GetMapping''],
       Handle PUT ''/api/:target/_mapping''
         [AuthMiddleware ''index.SetMapping'', Handler ''index.SetMapping''],
       Handle GET ''/api/:target/_settings''
         [AuthMiddleware ''index.GetSettings'', Handler ''index.GetSettings''],
       Handle PUT ''/api/:target/_settings''
         [AuthMiddleware ''index.SetSettings'', Handler ''index.SetSettings''],
       Handle POST ''/api/_analyze'' [AuthMiddleware ''index.Analyze'', Handler ''index.Analyze''],
       Handle POST ''/api/:target/_analyze''
         [AuthMiddleware ''index.Analyze'', Handler ''index.Analyze''],
       Handle POST ''/api/:target/_search''
         [AuthMiddleware ''search.SearchV1'', Handler ''search.SearchV1''],
       Handle POST ''/api/_bulk'' [AuthMiddleware ''document.Bulk'', Handler ''document.Bulk''],
       Handle POST ''/api/:target/_bulk''
         [AuthMiddleware ''document.Bulk'', Handler ''document.Bulk''],
       Handle POST ''/api/:target/_multi''
         [AuthMiddleware ''document.Multi'', Handler ''document.Multi''],
       Handle POST ''/api/_bulkv2''
         [AuthMiddleware ''document.Bulk'', Handler ''document.Bulkv2''],
       Handle POST ''/api/:target/_bulkv2''
         [AuthMiddleware ''document.Bulk'', Handler ''document.Bulkv2''],
       Handle POST ''/api/:target/_doc''
         [AuthMiddleware ''document.Create'', Handler ''document.CreateUpdate''],
       Handle PUT ''/api/:target/_doc''
         [AuthMiddleware ''document.Create'', Handler ''document.CreateUpdate''],
       Handle PUT ''/api/:target/_doc/:id''
         [AuthMiddleware ''document.Create'', Handler ''document.CreateUpdate''],
       Handle HEAD ''/api/:target/_doc/:id''
         [AuthMiddleware ''document.Get'', Handler ''document.Get''],
       Handle GET ''/api/:target/_doc/:id''
         [AuthMiddleware ''document.Get'', Handler ''document.Get''],
       Handle POST ''/api/:target/_update/:id''
         [AuthMiddleware ''document.Update'', Handler ''document.Update''],
       Handle DELETE ''/api/:target/_doc/:id''
         [AuthMiddleware ''document.Delete'', Handler ''document.Delete''],
       Handle GET ''/es/'' [ESMiddleware, Handler ''func(elastic.NewESInfo)''],
       Handle HEAD ''/es/'' [ESMiddleware, Handler ''func(elastic.NewESInfo)''],
       Handle GET ''/es/_license'' [ESMiddleware, Handler ''func(elastic.NewESLicense)''],
       Handle GET ''/es/_xpack'' [ESMiddleware, Handler ''func(elastic.NewESXPack)''],
       Handle POST ''/es/_search''
         [AuthMiddleware ''search.SearchDSL'', ESMiddleware, IndexAliasMiddleware, Handler ''search.SearchDSL''],
       Handle POST ''/es/_msearch''
         [AuthMiddleware ''search.MultipleSearch'', ESMiddleware, IndexAliasMiddleware, Handler ''search.MultipleSearch''],
       Handle POST ''/es/:target/_search''
         [AuthMiddleware ''search.SearchDSL'', ESMiddleware, IndexAliasMiddleware, Handler ''search.SearchDSL''],
       Handle POST ''/es/:target/_msearch''
         [AuthMiddleware ''search.MultipleSearch'', ESMiddleware, IndexAliasMiddleware, Handler ''search.MultipleSearch''],
       Handle POST ''/es/:target/_delete_by_query''
         [AuthMiddleware ''search.DeleteByQuery'', IndexAliasMiddleware, Handler ''search.DeleteByQuery''],
       Handle GET ''/es/_index_template''
         [AuthMiddleware ''index.ListTemplate'', ESMiddleware, Handler ''index.ListTemplate''],
       Handle POST ''/es/_index_template''
         [AuthMiddleware ''index.CreateTemplate'', ESMiddleware, Handler ''index.CreateTemplate''],
       Handle PUT ''/es/_index_template/:target''
         [AuthMiddleware ''index.CreateTemplate'', ESMiddleware, Handler ''index.CreateTemplate''],
       Handle GET ''/es/_index_template/:target''
         [AuthMiddleware ''index.GetTemplate'', ESMiddleware, Handler ''index.GetTemplate''],
       Handle HEAD ''/es/_index_template/:target''
         [AuthMiddleware ''index.GetTemplate'', ESMiddleware, Handler ''index.GetTemplate''],
       Handle DELETE ''/es/_index_template/:target''
         [AuthMiddleware ''index.DeleteTemplate'', ESMiddleware, Handler ''index.DeleteTemplate''],
       Handle PUT ''/es/_data_stream/:target''
         [AuthMiddleware ''elastic.PutDataStream'', ESMiddleware, Handler ''elastic.PutDataStream''],
       Handle GET ''/es/_data_stream/:target''
         [AuthMiddleware ''elastic.GetDataStream'', ESMiddleware, Handler ''elastic.GetDataStream''],
       Handle HEAD ''/es/_data_stream/:target''
         [AuthMiddleware ''elastic.GetDataStream'', ESMiddleware, Handler ''elastic.GetDataStream''],
       Handle PUT ''/es/:target''
         [AuthMiddleware ''index.CreateES'', ESMiddleware, Handler ''index.CreateES''],
       Handle HEAD ''/es/:target''
         [AuthMiddleware ''index.Exists'', ESMiddleware, Handler ''index.Exists''],
       Handle GET ''/es/:target/_mapping''
         [AuthMiddleware ''index.GetESMapping'', ESMiddleware, Handler ''index.GetESMapping''],
       Handle PUT ''/es/:target/_mapping''
         [AuthMiddleware ''index.SetMapping'', ESMiddleware, Handler ''index.SetMapping''],
       Handle GET ''/es/:target/_settings''
         [AuthMiddleware ''index.GetSettings'', ESMiddleware, Handler ''index.GetSettings''],
       Handle PUT ''/es/:target/_settings''
         [AuthMiddleware ''index.SetSettings'', ESMiddleware, Handler ''index.SetSettings''],
       Handle POST ''/es/_analyze''
         [AuthMiddleware ''index.Analyze'', ESMiddleware, Handler ''index.Analyze''],
       Handle POST ''/es/:target/_analyze''
         [AuthMiddleware ''index.Analyze'', ESMiddleware, Handler ''index.Analyze''],
       Handle POST ''/es/_aliases''
         [AuthMiddleware ''index.AddOrRemoveESAlias'', ESMiddleware, Handler ''index.AddOrRemoveESAlias''],
       Handle GET ''/es/_alias''
         [AuthMiddleware ''index.GetESAliases'', ESMiddleware, Handler ''index.GetESAliases''],
       Handle GET ''/es/:target/_alias''
         [AuthMiddleware ''index.GetESAliases'', ESMiddleware, Handler ''index.GetESAliases''],
       Handle GET ''/es/_alias/:target_alias''
         [AuthMiddleware ''index.GetESAliases'', ESMiddleware, Handler ''index.GetESAliases''],
       Handle POST ''/es/_bulk''
         [AuthMiddleware ''document.ESBulk'', ESMiddleware, Handler ''document.ESBulk''],
       Handle POST ''/es/:target/_bulk''
         [AuthMiddleware ''document.ESBulk'', ESMiddleware, Handler ''document.ESBulk''],
       Handle PUT ''/es/:target/_bulk''
         [AuthMiddleware ''document.ESBulk'', ESMiddleware, Handler ''document.ESBulk''],
       Handle POST ''/es/:target/_refresh''
         [AuthMiddleware ''index.Refresh'', Handler ''index.Refresh''],
       Handle POST ''/es/:target/_doc''
         [AuthMiddleware ''document.CreateUpdate'', ESMiddleware, Handler ''document.CreateUpdate''],
       Handle PUT ''/es/:target/_doc/:id''
         [AuthMiddleware ''document.CreateUpdate'', ESMiddleware, Handler ''document.CreateUpdate''],
       Handle PUT ''/es/:target/_create/:id''
         [AuthMiddleware ''document.CreateUpdate'', ESMiddleware, Handler ''document.CreateUpdate''],
       Handle POST ''/es/:target/_create/:id''
         [AuthMiddleware ''document.CreateUpdate'', ESMiddleware, Handler ''document.CreateUpdate''],
       Handle POST ''/es/:target/_update/:id''
         [AuthMiddleware ''document.Update'', ESMiddleware, Handler ''document.Update''],
       Handle DELETE ''/es/:target/_doc/:id''
         [AuthMiddleware ''document.Delete'', ESMiddleware, Handler ''document.Delete'']
      ] r"


definition router :: "string list \<Rightarrow> engine" where
  \<comment> \<open>The engine that serves: \<^verbatim>\<open>SetRoutes\<close> applied to a fresh engine. (Middleware
      that the caller installs before \<^verbatim>\<open>SetRoutes\<close> would stand in front of every
      chain, as \<open>Middleware\<close> stages do here.)\<close>
  "router ui_cache = SetRoutes ui_cache New"

definition serve_unmatched :: "engine \<Rightarrow> string \<Rightarrow> string \<Rightarrow> gin_context" where
  \<comment> \<open>How the fallback is entered. For a request that no route matches, gin stores the
      status 404 and runs the NoRoute handlers (\<^verbatim>\<open>serveError\<close>); the static file
      handler of \<^verbatim>\<open>r.StaticFS\<close> does the same when the file is missing. The answer sent
      carries the status and the headers that the handlers leave. The arguments are the
      method and the raw URI of the request. (Engine-wide middleware is taken to pass the
      request on.)\<close>
  "serve_unmatched r m uri =
     fold (\<lambda>h. h) (noRoute r)
       \<lparr>Method = m, RequestURI = uri, status = StatusNotFound,
        header = Map.empty, logged = []\<rparr>"


section \<open>Reading the route table\<close>

fun is_engine_wide :: "stage \<Rightarrow> bool" where
  "is_engine_wide (Middleware name) = True"
| "is_engine_wide s = False"

fun is_auth :: "stage \<Rightarrow> bool" where
  "is_auth (AuthMiddleware operation) = True"
| "is_auth s = False"

fun operation_ids :: "stage list \<Rightarrow> string list" where
  \<comment> \<open>The operation identifiers that the Authorization stages of a chain are bound to.\<close>
  "operation_ids [] = []"
| "operation_ids (AuthMiddleware operation # ss) = operation # operation_ids ss"
| "operation_ids (s # ss) = operation_ids ss"

definition route_chain :: "route \<Rightarrow> stage list" where
  \<comment> \<open>The chain that the route's own declaration composes: the stored chain without
      the engine-wide middleware.\<close>
  "route_chain r = filter (\<lambda>s. \<not> is_engine_wide s) (handlers r)"

definition find_route :: "http_method \<Rightarrow> string \<Rightarrow> route list \<Rightarrow> route option" where
  \<comment> \<open>The route registered for a method and a path pattern.\<close>
  "find_route m p rs = find (\<lambda>r. httpMethod r = m \<and> path r = p) rs"

definition mutating :: "http_method \<Rightarrow> bool" where
  "mutating m = (m = POST \<or> m = PUT \<or> m = DELETE)"

definition HasSuffix :: "string \<Rightarrow> string \<Rightarrow> bool" where
  \<comment> \<open>\<^verbatim>\<open>len(s) >= len(suffix) && s[len(s)-len(suffix):] == suffix\<close>\<close>
  "HasSuffix s suf = (length suf \<le> length s \<and> drop (length s - length suf) s = suf)"

definition is_search :: "string \<Rightarrow> bool" where
  \<comment> \<open>The search routes: the patterns that end in \<^verbatim>\<open>/_search\<close> or \<^verbatim>\<open>/_msearch\<close>.\<close>
  "is_search p = (HasSuffix p ''/_search'' \<or> HasSuffix p ''/_msearch'')"

fun auth_es_alias_handler :: "stage list \<Rightarrow> bool" where
  \<comment> \<open>Authorization, ProtocolCompatibility, AliasResolution, Handler, and nothing else.\<close>
  "auth_es_alias_handler [AuthMiddleware operation, ESMiddleware, IndexAliasMiddleware, Handler h] = True"
| "auth_es_alias_handler ss = False"

fun auth_es_handler :: "stage list \<Rightarrow> bool" where
  \<comment> \<open>Authorization, ProtocolCompatibility, Handler, and nothing else.\<close>
  "auth_es_handler [AuthMiddleware operation, ESMiddleware, Handler h] = True"
| "auth_es_handler ss = False"

text \<open>
  A chain has the Authorization stages first when none of them stands at or behind the
  first ProtocolCompatibility or AliasResolution stage.
\<close>

definition auth_first :: "stage list \<Rightarrow> bool" where
  "auth_first hs =
     (\<not> list_ex is_auth
          (dropWhile (\<lambda>s. s \<noteq> ESMiddleware \<and> s \<noteq> IndexAliasMiddleware) hs))"

definition informational :: "(http_method \<times> string) list" where
  "informational =
     [(GET, ''/version''), (GET, ''/healthz''),
      (GET, ''/es/''), (GET, ''/es/_license''), (GET, ''/es/_xpack'')]"

text \<open>
  Running a chain. The middleware and the handlers are defined in other files and
  packages, so what a stage does with the request is a parameter: \<open>answers s\<close> is the
  answer with which stage \<open>s\<close> ends the request, or \<open>None\<close> when it passes the request
  on. gin runs the stages of a chain in order, and a stage that aborts keeps the later
  ones from running. The answers are those of the specification's error taxonomy.
\<close>

datatype answer =
    Unauthenticated
  | PermissionDenied
  | BadRequest
  | NotFound
  | HandlerError
  | Success

fun run_chain :: "(stage \<Rightarrow> answer option) \<Rightarrow> stage list \<Rightarrow> answer option" where
  "run_chain answers [] = None"
| "run_chain answers (s # ss) =
     (case answers s of Some a \<Rightarrow> Some a | None \<Rightarrow> run_chain answers ss)"


section \<open>The route table, computed\<close>

lemma StaticFS_ui:
  "StaticFS ''/ui/'' r =
     Handle HEAD ''/ui/*filepath'' [Handler ''static'']
       (Handle GET ''/ui/*filepath'' [Handler ''static''] r)"
  by (simp add: StaticFS_def Let_def)

text \<open>The engine that \<open>SetRoutes\<close> builds, obtained by running its calls one by one.\<close>

lemmas router_eval =
  router_def [unfolded SetRoutes_def New_def HTTPCacheForUI_def StaticFS_ui Use_def Handle_def
    NoRoute_def List.fold_simps engine.simps append.simps]

text \<open>
  gin refuses, with a panic, a second registration of the same method and path.
  \<open>SetRoutes\<close> registers every pair once, so a lookup by method and path finds the
  one route of that pair.
\<close>

lemma routes_registered_once:
  "distinct (map (\<lambda>r. (httpMethod r, path r)) (trees (router ui_cache)))"
  by (simp add: router_eval)

text \<open>Rules that evaluate a lookup and a prefix test step by step.\<close>

lemma find_route_hit:
  "httpMethod r = m \<and> path r = p \<Longrightarrow> find_route m p (r # rs) = Some r"
  by (simp add: find_route_def)

lemma find_route_miss:
  "httpMethod r \<noteq> m \<or> path r \<noteq> p \<Longrightarrow> find_route m p (r # rs) = find_route m p rs"
  by (auto simp: find_route_def)

lemma find_route_mem: "find_route m p rs = Some r \<Longrightarrow> r \<in> set rs"
  by (auto simp: find_route_def find_Some_iff)

lemma HasPrefix_Nil: "HasPrefix s [] = True"
  by (simp add: HasPrefix_def)

lemma HasPrefix_Cons: "HasPrefix (c # cs) (p # ps) = (c = p \<and> HasPrefix cs ps)"
  by (auto simp: HasPrefix_def)

lemma HasPrefix_short: "HasPrefix [] (p # ps) = False"
  by (simp add: HasPrefix_def)

lemmas prefix_eval = HasPrefix_Nil HasPrefix_Cons HasPrefix_short

lemma HasPrefix_append: "HasPrefix (pre @ rest) pre"
  by (simp add: HasPrefix_def)

lemma HasSuffix_rev: "HasSuffix s suf = HasPrefix (rev s) (rev suf)"
  by (simp add: HasSuffix_def HasPrefix_def take_rev)

text \<open>Engine-wide middleware is none of the three named stages.\<close>

lemma engine_wide_not_auth: "list_ex is_auth (map Middleware names) = False"
  by (induction names) simp_all

lemma engine_wide_filtered:
  "filter (\<lambda>s. \<not> is_engine_wide s) (map Middleware names @ hs) =
   filter (\<lambda>s. \<not> is_engine_wide s) hs"
  by (induction names) simp_all

lemma count_list_app: "count_list (xs @ ys) x = count_list xs x + count_list ys x"
  by (induction xs) simp_all

lemma engine_wide_not_ES: "count_list (map Middleware names) ESMiddleware = 0"
  by (induction names) simp_all

lemma engine_wide_no_operation: "operation_ids (map Middleware names @ hs) = operation_ids hs"
  by (induction names) simp_all

subsection \<open>The order of the stages\<close>

lemma auth_first_Nil: "auth_first []"
  by (simp add: auth_first_def)

lemma auth_first_Cons:
  "auth_first (s # ss) =
     (if s = ESMiddleware \<or> s = IndexAliasMiddleware then \<not> list_ex is_auth (s # ss)
      else auth_first ss)"
  by (simp add: auth_first_def)

lemma auth_first_engine_wide: "auth_first (map Middleware names @ hs) = auth_first hs"
  by (induction names) (simp_all add: auth_first_Cons)

lemma auth_first_index:
  "auth_first hs \<Longrightarrow> i < length hs \<Longrightarrow> j < length hs \<Longrightarrow> is_auth (hs ! i) \<Longrightarrow>
   hs ! j = ESMiddleware \<or> hs ! j = IndexAliasMiddleware \<Longrightarrow> i < j"
proof (induction hs arbitrary: i j)
  case Nil
  then show ?case by simp
next
  case (Cons s ss)
  show ?case
  proof (cases "s = ESMiddleware \<or> s = IndexAliasMiddleware")
    case True
    with Cons.prems(1) have "\<forall>x \<in> set (s # ss). \<not> is_auth x"
      by (simp add: auth_first_Cons list_ex_iff)
    with Cons.prems(2,4) show ?thesis using nth_mem by blast
  next
    case False
    with Cons.prems(1) have rest: "auth_first ss" by (simp add: auth_first_Cons)
    from False Cons.prems(5) obtain j' where j: "j = Suc j'" by (cases j) auto
    show ?thesis
    proof (cases i)
      case 0
      with j show ?thesis by simp
    next
      case (Suc i')
      with j Cons.prems Cons.IH [OF rest, of i' j'] show ?thesis by simp
    qed
  qed
qed

lemma routes_auth_first: "list_all (\<lambda>r. auth_first (handlers r)) (trees (router ui_cache))"
  by (simp add: router_eval auth_first_Cons auth_first_Nil auth_first_engine_wide)

text \<open>
  C1. In every registered route, every Authorization stage of the chain stands strictly
  before every ProtocolCompatibility stage (\<open>ESMiddleware\<close>) and every AliasResolution
  stage (\<open>IndexAliasMiddleware\<close>) of that chain. The positions are those in the chain
  as gin stores it, engine-wide middleware included.
\<close>

theorem auth_precedes_compat_stages:
  "\<forall>r \<in> set (trees (router ui_cache)). \<forall>i j.
      i < length (handlers r) \<and> j < length (handlers r) \<and> is_auth (handlers r ! i) \<and>
      (handlers r ! j = ESMiddleware \<or> handlers r ! j = IndexAliasMiddleware) \<longrightarrow> i < j"
proof (intro ballI allI impI)
  fix r i j
  assume r: "r \<in> set (trees (router ui_cache))"
    and h: "i < length (handlers r) \<and> j < length (handlers r) \<and> is_auth (handlers r ! i) \<and>
      (handlers r ! j = ESMiddleware \<or> handlers r ! j = IndexAliasMiddleware)"
  from r routes_auth_first have "auth_first (handlers r)"
    by (simp add: list_all_iff)
  with h show "i < j" by (blast intro: auth_first_index)
qed

theorem auth_precedes_compat_stages_witness:
  "find_route POST ''/es/:target/_search'' (trees (router [''uiCache''])) =
     Some \<lparr>httpMethod = POST, path = ''/es/:target/_search'',
           handlers = [Middleware ''cors'', Middleware ''uiCache'',
                       AuthMiddleware ''search.SearchDSL'', ESMiddleware,
                       IndexAliasMiddleware, Handler ''search.SearchDSL'']\<rparr> \<and>
   is_auth (AuthMiddleware ''search.SearchDSL'') \<and> (2::nat) < 3 \<and> (2::nat) < 4"
proof -
  let ?r = "\<lparr>httpMethod = POST, path = ''/es/:target/_search'',
           handlers = [Middleware ''cors'', Middleware ''uiCache'',
                       AuthMiddleware ''search.SearchDSL'', ESMiddleware,
                       IndexAliasMiddleware, Handler ''search.SearchDSL'']\<rparr>"
  have f: "find_route POST ''/es/:target/_search'' (trees (router [''uiCache''])) = Some ?r"
    by (simp add: router_eval find_route_hit find_route_miss)
  note ordered = auth_precedes_compat_stages [of "[''uiCache'']", rule_format,
      OF find_route_mem [OF f]]
  have "(2::nat) < 3" by (rule ordered [of 2 3]) simp
  moreover have "(2::nat) < 4" by (rule ordered [of 2 4]) simp
  ultimately show ?thesis using f by simp
qed

subsection \<open>The chains of the compatibility surface\<close>

lemma compat_chains:
  "list_all (\<lambda>r.
     if HasPrefix (path r) ''/es/'' \<and> (mutating (httpMethod r) \<or> is_search (path r)) then
       if is_search (path r) then auth_es_alias_handler (route_chain r)
       else if path r = ''/es/:target/_delete_by_query'' \<or> path r = ''/es/:target/_refresh''
         then True
         else auth_es_handler (route_chain r)
     else True)
   (trees (router ui_cache))"
  by (simp add: router_eval prefix_eval mutating_def is_search_def HasSuffix_rev
      route_chain_def engine_wide_filtered)

text \<open>
  C2, as the code has it. Among the routes under \<^verbatim>\<open>/es/\<close> that mutate or search, a search
  route (\<^verbatim>\<open>_search\<close>, \<^verbatim>\<open>_msearch\<close>, with or without a target) composes exactly
  Authorization, ProtocolCompatibility, AliasResolution, Handler; every other one, the
  routes \<^verbatim>\<open>/es/:target/_delete_by_query\<close> and \<^verbatim>\<open>/es/:target/_refresh\<close> apart, composes
  exactly Authorization, ProtocolCompatibility, Handler, with no AliasResolution stage.
  Nothing is stated about the two routes set apart.
\<close>

theorem compat_chain_by_route_kind:
  "\<forall>r \<in> set (trees (router ui_cache)).
     HasPrefix (path r) ''/es/'' \<and> (mutating (httpMethod r) \<or> is_search (path r)) \<longrightarrow>
     (is_search (path r) \<longrightarrow> auth_es_alias_handler (route_chain r)) \<and>
     (\<not> is_search (path r) \<and> path r \<noteq> ''/es/:target/_delete_by_query'' \<and>
        path r \<noteq> ''/es/:target/_refresh'' \<longrightarrow> auth_es_handler (route_chain r))"
proof (intro ballI impI)
  fix r
  assume r: "r \<in> set (trees (router ui_cache))"
    and h: "HasPrefix (path r) ''/es/'' \<and> (mutating (httpMethod r) \<or> is_search (path r))"
  from compat_chains [of ui_cache, unfolded list_all_iff] r
  have "if HasPrefix (path r) ''/es/'' \<and> (mutating (httpMethod r) \<or> is_search (path r)) then
       if is_search (path r) then auth_es_alias_handler (route_chain r)
       else if path r = ''/es/:target/_delete_by_query'' \<or> path r = ''/es/:target/_refresh''
         then True
         else auth_es_handler (route_chain r)
     else True"
    by (rule bspec)
  with h show "(is_search (path r) \<longrightarrow> auth_es_alias_handler (route_chain r)) \<and>
     (\<not> is_search (path r) \<and> path r \<noteq> ''/es/:target/_delete_by_query'' \<and>
        path r \<noteq> ''/es/:target/_refresh'' \<longrightarrow> auth_es_handler (route_chain r))"
    by (simp split: if_splits)
qed

theorem compat_chain_by_route_kind_witness:
  "find_route POST ''/es/_msearch'' (trees (router [''uiCache''])) =
     Some \<lparr>httpMethod = POST, path = ''/es/_msearch'',
           handlers = [Middleware ''cors'', Middleware ''uiCache'',
                       AuthMiddleware ''search.MultipleSearch'', ESMiddleware,
                       IndexAliasMiddleware, Handler ''search.MultipleSearch'']\<rparr> \<and>
   auth_es_alias_handler
     [AuthMiddleware ''search.MultipleSearch'', ESMiddleware, IndexAliasMiddleware,
      Handler ''search.MultipleSearch''] \<and>
   find_route PUT ''/es/:target'' (trees (router [''uiCache''])) =
     Some \<lparr>httpMethod = PUT, path = ''/es/:target'',
           handlers = [Middleware ''cors'', Middleware ''uiCache'',
                       AuthMiddleware ''index.CreateES'', ESMiddleware,
                       Handler ''index.CreateES'']\<rparr> \<and>
   auth_es_handler [AuthMiddleware ''index.CreateES'', ESMiddleware, Handler ''index.CreateES'']"
proof -
  let ?s = "\<lparr>httpMethod = POST, path = ''/es/_msearch'',
           handlers = [Middleware ''cors'', Middleware ''uiCache'',
                       AuthMiddleware ''search.MultipleSearch'', ESMiddleware,
                       IndexAliasMiddleware, Handler ''search.MultipleSearch'']\<rparr>"
  let ?c = "\<lparr>httpMethod = PUT, path = ''/es/:target'',
           handlers = [Middleware ''cors'', Middleware ''uiCache'',
                       AuthMiddleware ''index.CreateES'', ESMiddleware,
                       Handler ''index.CreateES'']\<rparr>"
  have fs: "find_route POST ''/es/_msearch'' (trees (router [''uiCache''])) = Some ?s"
    by (simp add: router_eval find_route_hit find_route_miss)
  have fc: "find_route PUT ''/es/:target'' (trees (router [''uiCache''])) = Some ?c"
    by (simp add: router_eval find_route_hit find_route_miss)
  have "auth_es_alias_handler (route_chain ?s)"
    using compat_chain_by_route_kind [of "[''uiCache'']", rule_format, OF find_route_mem [OF fs]]
    by (simp add: prefix_eval mutating_def is_search_def HasSuffix_rev)
  moreover have "auth_es_handler (route_chain ?c)"
    using compat_chain_by_route_kind [of "[''uiCache'']", rule_format, OF find_route_mem [OF fc]]
    by (simp add: prefix_eval mutating_def is_search_def HasSuffix_rev)
  ultimately show ?thesis using fs fc by (simp add: route_chain_def)
qed

text \<open>
  C2 as stated fails: \<^verbatim>\<open>POST /es/_bulk\<close> mutates under \<^verbatim>\<open>/es/\<close> and has no AliasResolution
  stage; \<^verbatim>\<open>POST /es/:target/_delete_by_query\<close> has no ProtocolCompatibility stage; and
  \<^verbatim>\<open>POST /es/:target/_refresh\<close> has neither.
\<close>

theorem compat_routes_without_full_chain:
  "HasPrefix ''/es/_bulk'' ''/es/'' \<and> mutating POST \<and>
   map_option route_chain (find_route POST ''/es/_bulk'' (trees (router [''uiCache'']))) =
     Some [AuthMiddleware ''document.ESBulk'', ESMiddleware, Handler ''document.ESBulk''] \<and>
   \<not> auth_es_alias_handler
       [AuthMiddleware ''document.ESBulk'', ESMiddleware, Handler ''document.ESBulk''] \<and>
   map_option route_chain
       (find_route POST ''/es/:target/_delete_by_query'' (trees (router [''uiCache'']))) =
     Some [AuthMiddleware ''search.DeleteByQuery'', IndexAliasMiddleware,
           Handler ''search.DeleteByQuery''] \<and>
   \<not> auth_es_alias_handler
       [AuthMiddleware ''search.DeleteByQuery'', IndexAliasMiddleware,
        Handler ''search.DeleteByQuery''] \<and>
   map_option route_chain
       (find_route POST ''/es/:target/_refresh'' (trees (router [''uiCache'']))) =
     Some [AuthMiddleware ''index.Refresh'', Handler ''index.Refresh''] \<and>
   \<not> auth_es_alias_handler [AuthMiddleware ''index.Refresh'', Handler ''index.Refresh'']"
  by (simp add: router_eval find_route_hit find_route_miss route_chain_def prefix_eval
      mutating_def)

subsection \<open>The login route\<close>

text \<open>
  C3, as the code has it. \<^verbatim>\<open>POST /api/login\<close> is registered with the handler
  \<^verbatim>\<open>auth.Login\<close> alone: its chain has no Authorization stage and is bound to no
  operation identifier.
\<close>

theorem login_route_has_handler_only:
  "\<exists>r. find_route POST ''/api/login'' (trees (router ui_cache)) = Some r \<and>
       route_chain r = [Handler ''auth.Login''] \<and>
       operation_ids (handlers r) = [] \<and>
       \<not> list_ex is_auth (handlers r)"
  by (simp add: router_eval find_route_hit find_route_miss route_chain_def engine_wide_filtered
      engine_wide_no_operation engine_wide_not_auth)

text \<open>
  C3 as stated fails: the chain stored for \<^verbatim>\<open>POST /api/login\<close> holds no
  \<open>AuthMiddleware ''auth.Login''\<close> stage.
\<close>

theorem login_route_not_bound_to_operation:
  "find_route POST ''/api/login'' (trees (router [''uiCache''])) =
     Some \<lparr>httpMethod = POST, path = ''/api/login'',
           handlers = [Middleware ''cors'', Middleware ''uiCache'', Handler ''auth.Login'']\<rparr> \<and>
   AuthMiddleware ''auth.Login'' \<notin>
     set [Middleware ''cors'', Middleware ''uiCache'', Handler ''auth.Login'']"
  by (simp add: router_eval find_route_hit find_route_miss)

subsection \<open>The informational routes\<close>

lemma run_chain_no_auth:
  "\<forall>s. answers s = Some Unauthenticated \<longrightarrow> is_auth s \<Longrightarrow> \<not> list_ex is_auth hs \<Longrightarrow>
   run_chain answers hs \<noteq> Some Unauthenticated"
  by (induction hs) (auto split: option.splits)

lemma informational_registered:
  "list_all (\<lambda>(m, p). \<exists>r. find_route m p (trees (router ui_cache)) = Some r \<and>
       \<not> list_ex is_auth (handlers r)) informational"
  by (simp add: informational_def router_eval find_route_hit find_route_miss
      engine_wide_not_auth)

text \<open>
  C4. Each informational route (\<^verbatim>\<open>GET /version\<close>, \<^verbatim>\<open>GET /healthz\<close>, \<^verbatim>\<open>GET /es/\<close>,
  \<^verbatim>\<open>GET /es/_license\<close>, \<^verbatim>\<open>GET /es/_xpack\<close>) is registered, and its chain holds no
  Authorization stage. So, whatever the stages do with a request, as long as
  \<open>Unauthenticated\<close> is an answer of Authorization stages only, running the chain never
  answers \<open>Unauthenticated\<close>.
\<close>

theorem informational_routes_skip_authorization:
  "\<forall>(m, p) \<in> set informational.
     \<exists>r. find_route m p (trees (router ui_cache)) = Some r \<and>
       \<not> list_ex is_auth (handlers r) \<and>
       ((\<forall>s. answers s = Some Unauthenticated \<longrightarrow> is_auth s) \<longrightarrow>
          run_chain answers (handlers r) \<noteq> Some Unauthenticated)"
proof (intro ballI, clarify)
  fix m p
  assume "(m, p) \<in> set informational"
  with informational_registered [of ui_cache, unfolded list_all_iff]
  obtain r where r: "find_route m p (trees (router ui_cache)) = Some r"
    and na: "\<not> list_ex is_auth (handlers r)"
    by blast
  have "(\<forall>s. answers s = Some Unauthenticated \<longrightarrow> is_auth s) \<longrightarrow>
          run_chain answers (handlers r) \<noteq> Some Unauthenticated"
  proof
    assume only_auth: "\<forall>s. answers s = Some Unauthenticated \<longrightarrow> is_auth s"
    from run_chain_no_auth [OF only_auth na]
    show "run_chain answers (handlers r) \<noteq> Some Unauthenticated" .
  qed
  with r na show "\<exists>r. find_route m p (trees (router ui_cache)) = Some r \<and>
       \<not> list_ex is_auth (handlers r) \<and>
       ((\<forall>s. answers s = Some Unauthenticated \<longrightarrow> is_auth s) \<longrightarrow>
          run_chain answers (handlers r) \<noteq> Some Unauthenticated)"
    by blast
qed

text \<open>
  The witness runs \<^verbatim>\<open>GET /es/_license\<close> with stages that behave as the specification
  describes a request without credentials: Authorization answers \<open>Unauthenticated\<close>,
  the middleware passes the request on, the handler answers.
\<close>

theorem informational_routes_skip_authorization_witness:
  "(GET, ''/es/_license'') \<in> set informational \<and>
   find_route GET ''/es/_license'' (trees (router [''uiCache''])) =
     Some \<lparr>httpMethod = GET, path = ''/es/_license'',
           handlers = [Middleware ''cors'', Middleware ''uiCache'', ESMiddleware,
                       Handler ''func(elastic.NewESLicense)'']\<rparr> \<and>
   run_chain (\<lambda>s. case s of AuthMiddleware operation \<Rightarrow> Some Unauthenticated
                     | Handler h \<Rightarrow> Some Success | _ \<Rightarrow> None)
     [Middleware ''cors'', Middleware ''uiCache'', ESMiddleware,
      Handler ''func(elastic.NewESLicense)''] \<noteq> Some Unauthenticated"
proof -
  let ?answers = "\<lambda>s. case s of AuthMiddleware operation \<Rightarrow> Some Unauthenticated
                     | Handler h \<Rightarrow> Some Success | _ \<Rightarrow> None"
  have i: "(GET, ''/es/_license'') \<in> set informational"
    by (simp add: informational_def)
  have only_auth: "\<forall>s. ?answers s = Some Unauthenticated \<longrightarrow> is_auth s"
    by (simp split: stage.splits)
  have f: "find_route GET ''/es/_license'' (trees (router [''uiCache''])) =
     Some \<lparr>httpMethod = GET, path = ''/es/_license'',
           handlers = [Middleware ''cors'', Middleware ''uiCache'', ESMiddleware,
                       Handler ''func(elastic.NewESLicense)'']\<rparr>"
    by (simp add: router_eval find_route_hit find_route_miss)
  from informational_routes_skip_authorization [of "[''uiCache'']" ?answers,
      THEN bspec, OF i] f only_auth
  have "run_chain ?answers [Middleware ''cors'', Middleware ''uiCache'', ESMiddleware,
      Handler ''func(elastic.NewESLicense)''] \<noteq> Some Unauthenticated"
    by auto
  with i f show ?thesis by blast
qed

subsection \<open>The two dialects\<close>

lemma native_without_ES:
  "list_all (\<lambda>r. if HasPrefix (path r) ''/api/''
                  then count_list (handlers r) ESMiddleware = 0 else True)
     (trees (router ui_cache))"
  by (simp add: router_eval prefix_eval count_list_app engine_wide_not_ES)

lemma compat_with_one_ES:
  "list_all (\<lambda>r. if HasPrefix (path r) ''/es/''
                  then count_list (handlers r) ESMiddleware = 1 \<or>
                       path r = ''/es/:target/_delete_by_query'' \<or>
                       path r = ''/es/:target/_refresh''
                  else True)
     (trees (router ui_cache))"
  by (simp add: router_eval prefix_eval count_list_app engine_wide_not_ES)

lemma native_has_neither:
  "list_all (\<lambda>r. path r \<noteq> ''/api/:target/_delete_by_query'' \<and>
                  path r \<noteq> ''/api/:target/_refresh'')
     (trees (router ui_cache))"
  by (simp add: router_eval)

text \<open>
  C6. Whenever a method and a path are registered both behind \<^verbatim>\<open>/api/\<close> and behind
  \<^verbatim>\<open>/es/\<close>, the chain of the \<^verbatim>\<open>/es/\<close> route holds the ProtocolCompatibility stage
  exactly once and the chain of the \<^verbatim>\<open>/api/\<close> route holds it not at all.
\<close>

theorem protocol_compatibility_once_per_dialect:
  "\<forall>a \<in> set (trees (router ui_cache)). \<forall>e \<in> set (trees (router ui_cache)).
     httpMethod a = httpMethod e \<and> path a = ''/api/'' @ x \<and> path e = ''/es/'' @ x \<longrightarrow>
       count_list (handlers e) ESMiddleware = 1 \<and> count_list (handlers a) ESMiddleware = 0"
proof (intro ballI impI)
  fix a e
  assume a: "a \<in> set (trees (router ui_cache))" and e: "e \<in> set (trees (router ui_cache))"
    and h: "httpMethod a = httpMethod e \<and> path a = ''/api/'' @ x \<and> path e = ''/es/'' @ x"
  from h have pa: "HasPrefix (path a) ''/api/''" and pe: "HasPrefix (path e) ''/es/''"
    by (simp_all only: HasPrefix_append)
  from native_without_ES [of ui_cache, unfolded list_all_iff] a
  have "if HasPrefix (path a) ''/api/''
        then count_list (handlers a) ESMiddleware = 0 else True"
    by (rule bspec)
  with pa have native: "count_list (handlers a) ESMiddleware = 0" by simp
  from native_has_neither [of ui_cache, unfolded list_all_iff] a
  have "path a \<noteq> ''/api/:target/_delete_by_query'' \<and> path a \<noteq> ''/api/:target/_refresh''"
    by (rule bspec)
  with h have other: "path e \<noteq> ''/es/:target/_delete_by_query'' \<and>
      path e \<noteq> ''/es/:target/_refresh''"
    by auto
  from compat_with_one_ES [of ui_cache, unfolded list_all_iff] e
  have "if HasPrefix (path e) ''/es/''
        then count_list (handlers e) ESMiddleware = 1 \<or>
             path e = ''/es/:target/_delete_by_query'' \<or>
             path e = ''/es/:target/_refresh''
        else True"
    by (rule bspec)
  with pe other have "count_list (handlers e) ESMiddleware = 1" by simp
  with native
  show "count_list (handlers e) ESMiddleware = 1 \<and> count_list (handlers a) ESMiddleware = 0"
    by simp
qed

theorem protocol_compatibility_once_per_dialect_witness:
  "find_route PUT ''/api/:target/_mapping'' (trees (router [''uiCache''])) =
     Some \<lparr>httpMethod = PUT, path = ''/api/'' @ '':target/_mapping'',
           handlers = [Middleware ''cors'', Middleware ''uiCache'',
                       AuthMiddleware ''index.SetMapping'', Handler ''index.SetMapping'']\<rparr> \<and>
   find_route PUT ''/es/:target/_mapping'' (trees (router [''uiCache''])) =
     Some \<lparr>httpMethod = PUT, path = ''/es/'' @ '':target/_mapping'',
           handlers = [Middleware ''cors'', Middleware ''uiCache'',
                       AuthMiddleware ''index.SetMapping'', ESMiddleware,
                       Handler ''index.SetMapping'']\<rparr> \<and>
   count_list [Middleware ''cors'', Middleware ''uiCache'', AuthMiddleware ''index.SetMapping'',
               ESMiddleware, Handler ''index.SetMapping''] ESMiddleware = 1 \<and>
   count_list [Middleware ''cors'', Middleware ''uiCache'', AuthMiddleware ''index.SetMapping'',
               Handler ''index.SetMapping''] ESMiddleware = 0"
proof -
  let ?a = "\<lparr>httpMethod = PUT, path = ''/api/'' @ '':target/_mapping'',
           handlers = [Middleware ''cors'', Middleware ''uiCache'',
                       AuthMiddleware ''index.SetMapping'', Handler ''index.SetMapping'']\<rparr>"
  let ?e = "\<lparr>httpMethod = PUT, path = ''/es/'' @ '':target/_mapping'',
           handlers = [Middleware ''cors'', Middleware ''uiCache'',
                       AuthMiddleware ''index.SetMapping'', ESMiddleware,
                       Handler ''index.SetMapping'']\<rparr>"
  have fa: "find_route PUT ''/api/:target/_mapping'' (trees (router [''uiCache''])) = Some ?a"
    by (simp add: router_eval find_route_hit find_route_miss)
  have fe: "find_route PUT ''/es/:target/_mapping'' (trees (router [''uiCache''])) = Some ?e"
    by (simp add: router_eval find_route_hit find_route_miss)
  have "httpMethod ?a = httpMethod ?e \<and> path ?a = ''/api/'' @ '':target/_mapping'' \<and>
      path ?e = ''/es/'' @ '':target/_mapping''"
    by (simp only: route.simps simp_thms)
  with protocol_compatibility_once_per_dialect [of "[''uiCache'']" "'':target/_mapping''",
      THEN bspec, OF find_route_mem [OF fa], THEN bspec, OF find_route_mem [OF fe]]
  have "count_list (handlers ?e) ESMiddleware = 1 \<and> count_list (handlers ?a) ESMiddleware = 0"
    by (rule mp)
  with fa fe show ?thesis by simp
qed

subsection \<open>The bulk routes\<close>

text \<open>
  C7. \<^verbatim>\<open>POST /api/_bulk\<close> and \<^verbatim>\<open>POST /api/:target/_bulk\<close> are both registered, each
  with one Authorization stage bound to \<^verbatim>\<open>document.Bulk\<close> and with the terminal handler
  \<^verbatim>\<open>document.Bulk\<close>; their chains are the same.
\<close>

theorem bulk_routes_share_operation_and_handler:
  "\<exists>r1 r2. find_route POST ''/api/_bulk'' (trees (router ui_cache)) = Some r1 \<and>
      find_route POST ''/api/:target/_bulk'' (trees (router ui_cache)) = Some r2 \<and>
      operation_ids (handlers r1) = [''document.Bulk''] \<and>
      operation_ids (handlers r2) = [''document.Bulk''] \<and>
      last (handlers r1) = Handler ''document.Bulk'' \<and>
      last (handlers r2) = Handler ''document.Bulk'' \<and>
      handlers r1 = handlers r2"
  by (simp add: router_eval find_route_hit find_route_miss engine_wide_no_operation)

section \<open>The fallback\<close>

lemma serve_unmatched_router:
  "serve_unmatched (router ui_cache) m uri =
     NoRoute_handler \<lparr>Method = m, RequestURI = uri, status = StatusNotFound,
                      header = Map.empty, logged = []\<rparr>"
  by (simp add: serve_unmatched_def router_eval)

text \<open>\<open>Count\<close> on the \<open>Location\<close> values that the handler builds.\<close>

lemma count_loop_Repeat: "count_loop (Repeat ''../'' n) ''../'' k = k + n"
proof (induction n arbitrary: k)
  case 0
  show ?case by (simp add: count_loop.simps [of "[]"])
next
  case (Suc n)
  have "count_loop (Repeat ''../'' (Suc n)) ''../'' k =
        count_loop (Repeat ''../'' n) ''../'' (Suc k)"
    by (subst count_loop.simps) (simp add: prefix_eval)
  with Suc.IH show ?case by simp
qed

lemma Count_Location: "Count (CHR ''.'' # CHR ''/'' # Repeat ''../'' n) ''../'' = n"
proof (cases n)
  case 0
  then show ?thesis
    by (simp add: Count_def count_loop.simps [of "''./''"] prefix_eval)
next
  case (Suc k)
  have "Index (CHR ''.'' # CHR ''/'' # Repeat ''../'' (Suc k)) ''../'' = Some 2"
    by (simp add: prefix_eval)
  then have "count_loop (CHR ''.'' # CHR ''/'' # Repeat ''../'' (Suc k)) ''../'' 0 =
        count_loop (Repeat ''../'' k) ''../'' (Suc 0)"
    by (subst count_loop.simps) simp
  with Suc show ?thesis by (simp add: Count_def count_loop_Repeat)
qed

lemma Location_router:
  "HasPrefix uri ''/ui/'' \<Longrightarrow>
   header (serve_unmatched (router ui_cache) m uri) ''Location'' =
     Some (CHR ''.'' # CHR ''/'' #
           Repeat ''../'' (length (filter (\<lambda>c. c = CHR ''/'') (TrimPrefix uri ''/ui/''))))"
  by (simp add: serve_unmatched_router NoRoute_handler_def Let_def Count_def)









text \<open>
  C10. The number of \<^verbatim>\<open>../\<close> in the \<open>Location\<close> of the redirect is the number of
  \<^verbatim>\<open>/\<close> bytes in the raw request URI behind the prefix \<^verbatim>\<open>/ui/\<close>, the query string
  and a trailing separator included. For \<^verbatim>\<open>/ui/a/b?x=c/d\<close> it is 2, where the path is
  \<^verbatim>\<open>/ui/a/b\<close> and its nesting depth less one is 1.
\<close>

theorem redirect_counts_separators_of_raw_uri:
  "(\<forall>ui_cache m uri. HasPrefix uri ''/ui/'' \<longrightarrow>
      (\<exists>loc. header (serve_unmatched (router ui_cache) m uri) ''Location'' = Some loc \<and>
         Count loc ''../'' =
           length (filter (\<lambda>c. c = CHR ''/'') (TrimPrefix uri ''/ui/'')))) \<and>
   (\<forall>ui_cache m.
      \<exists>loc. header (serve_unmatched (router ui_cache) m ''/ui/a/b?x=c/d'') ''Location'' =
               Some loc \<and>
        Count loc ''../'' = 2 \<and>
        url_path ''/ui/a/b?x=c/d'' = Some ''/ui/a/b'' \<and> nesting_depth ''/ui/a/b'' - 1 = 1)"
proof (intro conjI allI impI)
  fix ui_cache m uri
  assume "HasPrefix uri ''/ui/''"
  then show "\<exists>loc. header (serve_unmatched (router ui_cache) m uri) ''Location'' = Some loc \<and>
         Count loc ''../'' = length (filter (\<lambda>c. c = CHR ''/'') (TrimPrefix uri ''/ui/''))"
    by (simp add: Location_router Count_Location)
next
  fix ui_cache m
  have p: "HasPrefix ''/ui/a/b?x=c/d'' ''/ui/''"
    by (simp add: prefix_eval)
  have u: "url_path ''/ui/a/b?x=c/d'' = Some ''/ui/a/b''"
    by (simp add: url_path_def)
  have d: "nesting_depth ''/ui/a/b'' = 2"
    by (simp add: nesting_depth_def segments_def TrimPrefix_def prefix_eval)
  have t: "length (filter (\<lambda>c. c = CHR ''/'') (TrimPrefix ''/ui/a/b?x=c/d'' ''/ui/'')) = 2"
    by (simp add: TrimPrefix_def prefix_eval)
  show "\<exists>loc. header (serve_unmatched (router ui_cache) m ''/ui/a/b?x=c/d'') ''Location'' =
               Some loc \<and>
        Count loc ''../'' = 2 \<and>
        url_path ''/ui/a/b?x=c/d'' = Some ''/ui/a/b'' \<and> nesting_depth ''/ui/a/b'' - 1 = 1"
    by (simp add: Location_router [OF p] Count_Location d t u)
qed

theorem redirect_counts_separators_of_raw_uri_witness:
  "HasPrefix ''/ui/a/b/'' ''/ui/'' \<and>
   (\<exists>loc. header (serve_unmatched (router [''uiCache'']) ''GET'' ''/ui/a/b/'') ''Location'' =
            Some loc \<and>
      Count loc ''../'' = length (filter (\<lambda>c. c = CHR ''/'') (TrimPrefix ''/ui/a/b/'' ''/ui/''))) \<and>
   length (filter (\<lambda>c. c = CHR ''/'') (TrimPrefix ''/ui/a/b/'' ''/ui/'')) = 2"
proof -
  have p: "HasPrefix ''/ui/a/b/'' ''/ui/''"
    by (simp add: prefix_eval)
  have t: "length (filter (\<lambda>c. c = CHR ''/'') (TrimPrefix ''/ui/a/b/'' ''/ui/'')) = 2"
    by (simp add: TrimPrefix_def prefix_eval)
  from redirect_counts_separators_of_raw_uri
  have "\<exists>loc. header (serve_unmatched (router [''uiCache'']) ''GET'' ''/ui/a/b/'') ''Location'' =
            Some loc \<and>
      Count loc ''../'' = length (filter (\<lambda>c. c = CHR ''/'') (TrimPrefix ''/ui/a/b/'' ''/ui/''))"
    using p by blast
  with p t show ?thesis by blast
qed




end
